theory Spec2Isabelle
  imports Complex_Main "HOL-Library.Product_Lexorder" "HOL-Library.AList" "HOL-Library.Multiset"
begin

section \<open>Data model\<close>

text \<open>
  The application stores calendar days as ISO strings \<^verbatim>\<open>YYYY-MM-DD\<close>
  (\<^verbatim>\<open>new Date().toISOString().split('T')[0]\<close>). Such a string is modelled by its three
  numeric fields (year, month, day). For strings of this shape \<^verbatim>\<open>===\<close> is equality of the
  triples and the string comparison \<^verbatim>\<open><\<close> is the lexicographic order of the triples
  (years 0000 to 9999). The clock is read in UTC and the local offset is taken to be
  constant, so that \<^verbatim>\<open>d.setDate(d.getDate() - 1)\<close> followed by \<^verbatim>\<open>toISOString()\<close> is the
  previous calendar day.

  JavaScript numbers are modelled as exact rationals: no rounding error, no \<^verbatim>\<open>NaN\<close>.
\<close>

type_synonym isodate = "int \<times> nat \<times> nat"

datatype Priority = High | Medium | Low

text \<open>\<^verbatim>\<open>completedAt?: string | null\<close>: the field may be missing, null, or a day.\<close>

datatype completedAt_val = Absent | Null | Day isodate

record DailyGoal =
  g_id :: string
  g_userId :: string
  g_date :: isodate
  g_title :: string
  g_subject :: string
  g_targetHours :: rat
  g_completed :: bool
  g_priority :: Priority
  g_createdAt :: int
  g_completedAt :: completedAt_val

record StudySession =
  s_id :: string
  s_userId :: string
  s_subject :: string
  s_topic :: string
  s_startTime :: int
  s_endTime :: int
  s_durationMinutes :: rat
  s_date :: isodate

section \<open>Persistence layer: goals\<close>

text \<open>\<^verbatim>\<open>shouldIncludeGoal\<close>, the closure inside \<^verbatim>\<open>api.getGoals\<close>.\<close>

definition isToday :: "isodate \<Rightarrow> DailyGoal \<Rightarrow> bool" where
  "isToday date g = (g_date g = date)"

definition isPastIncomplete :: "isodate \<Rightarrow> DailyGoal \<Rightarrow> bool" where
  "isPastIncomplete date g = (g_date g < date \<and> \<not> g_completed g)"

definition isPastCompletedToday :: "isodate \<Rightarrow> DailyGoal \<Rightarrow> bool" where
  "isPastCompletedToday date g =
     (g_date g < date \<and> g_completed g \<and> g_completedAt g = Day date)"

definition shouldIncludeGoal :: "isodate \<Rightarrow> DailyGoal \<Rightarrow> bool" where
  "shouldIncludeGoal date g =
     (isToday date g \<or> isPastIncomplete date g \<or> isPastCompletedToday date g)"

text \<open>
  Both branches of \<^verbatim>\<open>getGoals\<close> (document store and local mock) read every goal of the
  user and return \<^verbatim>\<open>all.filter(shouldIncludeGoal)\<close>.
\<close>

definition getGoals :: "DailyGoal list \<Rightarrow> isodate \<Rightarrow> DailyGoal list" where
  "getGoals all date = filter (shouldIncludeGoal date) all"

text \<open>\<^verbatim>\<open>Array.prototype.findIndex\<close>; \<open>None\<close> stands for the result \<^verbatim>\<open>-1\<close>.\<close>

fun findIndex :: "('a \<Rightarrow> bool) \<Rightarrow> 'a list \<Rightarrow> nat option" where
  "findIndex p [] = None"
| "findIndex p (x # xs) =
     (if p x then Some 0 else map_option Suc (findIndex p xs))"

text \<open>
  The object \<^verbatim>\<open>updates\<close> built by \<^verbatim>\<open>toggleGoal\<close>, and the spread
  \<^verbatim>\<open>{ ...all[idx], ...updates }\<close>. The document-store branch hands the same object to
  \<^verbatim>\<open>updateDoc\<close>.
\<close>

definition toggleUpdates :: "bool \<Rightarrow> isodate \<Rightarrow> bool \<times> completedAt_val" where
  "toggleUpdates currentStatus today =
     (let newStatus = \<not> currentStatus
      in (newStatus, if newStatus then Day today else Null))"

definition applyUpdates :: "bool \<times> completedAt_val \<Rightarrow> DailyGoal \<Rightarrow> DailyGoal" where
  "applyUpdates updates g =
     g\<lparr>g_completed := fst updates, g_completedAt := snd updates\<rparr>"

text \<open>
  \<^verbatim>\<open>toggleGoal\<close> on the local store. \<open>today\<close> is the clock reading taken inside the
  function; \<open>currentStatus\<close> is supplied by the caller (the dashboard passes the
  \<^verbatim>\<open>completed\<close> field of the goal as last fetched).
\<close>

definition toggleGoal :: "DailyGoal list \<Rightarrow> string \<Rightarrow> bool \<Rightarrow> isodate \<Rightarrow> DailyGoal list" where
  "toggleGoal all goalId currentStatus today =
     (case findIndex (\<lambda>g. g_id g = goalId) all of
        None \<Rightarrow> all
      | Some idx \<Rightarrow> all[idx := applyUpdates (toggleUpdates currentStatus today) (all ! idx)])"



section \<open>Persistence layer: sessions\<close>

text \<open>
  \<^verbatim>\<open>Array.prototype.sort(compare)\<close> is stable. For a comparator that is a total
  preorder its result is the one of stable insertion: an element goes in front of the
  first element it does not compare greater than.
\<close>

fun insertBy :: "('a \<Rightarrow> 'a \<Rightarrow> int) \<Rightarrow> 'a \<Rightarrow> 'a list \<Rightarrow> 'a list" where
  "insertBy compare x [] = [x]"
| "insertBy compare x (y # ys) =
     (if compare x y \<le> 0 then x # y # ys else y # insertBy compare x ys)"

definition sortBy :: "('a \<Rightarrow> 'a \<Rightarrow> int) \<Rightarrow> 'a list \<Rightarrow> 'a list" where
  "sortBy compare xs = foldr (insertBy compare) xs []"

text \<open>The comparator of the mock branch: \<^verbatim>\<open>new Date(b.endTime) - new Date(a.endTime)\<close>.\<close>

definition byEndTimeDesc :: "StudySession \<Rightarrow> StudySession \<Rightarrow> int" where
  "byEndTimeDesc a b = s_endTime b - s_endTime a"

text \<open>
  \<^verbatim>\<open>api.getSessions(userId, date?)\<close> over the list \<open>all\<close> of the user's stored sessions.
  With the document store configured the query is \<^verbatim>\<open>where("date", "==", date)\<close> when a
  date is given and \<^verbatim>\<open>orderBy("endTime", "desc"), limit(200)\<close> otherwise; the mock branch
  filters or sorts the whole array.
\<close>

definition getSessions :: "bool \<Rightarrow> StudySession list \<Rightarrow> isodate option \<Rightarrow> StudySession list" where
  "getSessions isFirebaseConfigured all date =
     (if isFirebaseConfigured then
        (case date of
           Some d \<Rightarrow> filter (\<lambda>s. s_date s = d) all
         | None \<Rightarrow> take 200 (sortBy byEndTimeDesc all))
      else
        (case date of
           Some d \<Rightarrow> filter (\<lambda>s. s_date s = d) all
         | None \<Rightarrow> sortBy byEndTimeDesc all))"

section \<open>Dashboard: progress per goal\<close>

text \<open>
  \<^verbatim>\<open>parseFloat(x.toFixed(1))\<close>: the nearest multiple of one tenth, the larger one on a
  tie, computed on the absolute value with the sign put back.
\<close>

definition toFixed1 :: "rat \<Rightarrow> rat" where
  "toFixed1 x =
     (if x < 0 then - (of_int \<lfloor>(- x) * 10 + 1 / 2\<rfloor> / 10)
      else of_int \<lfloor>x * 10 + 1 / 2\<rfloor> / 10)"

record GoalWithProgress = DailyGoal +
  actualHours :: rat

definition todaysSessions :: "StudySession list \<Rightarrow> isodate \<Rightarrow> StudySession list" where
  "todaysSessions allSessions today = filter (\<lambda>s. s_date s = today) allSessions"

definition goalSpecificMinutes :: "StudySession list \<Rightarrow> DailyGoal \<Rightarrow> rat" where
  "goalSpecificMinutes todays g =
     foldl (\<lambda>sum s. sum + s_durationMinutes s) 0
       (filter (\<lambda>s. s_subject s = g_subject g \<and> s_topic s = g_title g) todays)"

text \<open>The object \<^verbatim>\<open>{ ...g, actualHours: ... }\<close> built for every fetched goal.\<close>

definition withProgress :: "StudySession list \<Rightarrow> DailyGoal \<Rightarrow> GoalWithProgress" where
  "withProgress todays g =
     DailyGoal.extend g
       (GoalWithProgress.fields (toFixed1 (goalSpecificMinutes todays g / 60)))"

definition pMap :: "Priority \<Rightarrow> int" where
  "pMap p = (case p of High \<Rightarrow> 3 | Medium \<Rightarrow> 2 | Low \<Rightarrow> 1)"

definition goalCompare :: "GoalWithProgress \<Rightarrow> GoalWithProgress \<Rightarrow> int" where
  "goalCompare a b =
     (if g_completed a = g_completed b then pMap (g_priority b) - pMap (g_priority a)
      else if g_completed a then 1 else - 1)"

text \<open>
  The list handed to \<^verbatim>\<open>setGoals\<close> by \<^verbatim>\<open>fetchDashboardData\<close>, from the goals and sessions
  the two API calls returned.
\<close>

definition dashboardGoals :: "DailyGoal list \<Rightarrow> StudySession list \<Rightarrow> isodate \<Rightarrow> GoalWithProgress list" where
  "dashboardGoals fetchedGoals allSessions today =
     sortBy goalCompare (map (withProgress (todaysSessions allSessions today)) fetchedGoals)"



section \<open>Average confidence\<close>

text \<open>\<^verbatim>\<open>Math.round\<close> rounds to the nearest integer, a half upwards.\<close>

definition Math_round :: "rat \<Rightarrow> int" where
  "Math_round x = \<lfloor>x + 1 / 2\<rfloor>"

text \<open>Decimal printing of a number inside a template, for non-negative integers.\<close>

fun digitsOf :: "nat \<Rightarrow> string" where
  "digitsOf n =
     (if n < 10 then [''0123456789'' ! n]
      else digitsOf (n div 10) @ [''0123456789'' ! (n mod 10)])"

definition showInt :: "int \<Rightarrow> string" where
  "showInt i = (if i < 0 then CHR ''-'' # digitsOf (nat (- i)) else digitsOf (nat i))"

text \<open>
  \<^verbatim>\<open>Analytics.tsx\<close>: \<open>allConf\<close> is the list of scores returned by
  \<^verbatim>\<open>api.getConfidence(uid)\<close>; the value is stored in \<^verbatim>\<open>stats.avgConfidence\<close> and shown as
  \<^verbatim>\<open>{stats.avgConfidence}%\<close>.
\<close>

definition avgConf :: "int list \<Rightarrow> int" where
  "avgConf allConf =
     (if length allConf > 0
      then Math_round (of_int (foldl (+) 0 allConf) / of_nat (length allConf))
      else 0)"

definition renderAnalyticsAvgConfidence :: "int list \<Rightarrow> string" where
  "renderAnalyticsAvgConfidence allConf = showInt (avgConf allConf) @ ''%''"

text \<open>
  \<^verbatim>\<open>Dashboard.tsx\<close>: the same mean, kept as \<^verbatim>\<open>number | null\<close> and shown as
  \<^verbatim>\<open>avgConfidence !== null ? `${avgConfidence}%` : '-'\<close>.
\<close>

definition avgConfidence :: "int list \<Rightarrow> int option" where
  "avgConfidence allConf =
     (if length allConf > 0
      then Some (Math_round (of_int (foldl (+) 0 allConf) / of_nat (length allConf)))
      else None)"

definition renderDashboardAvgConfidence :: "int list \<Rightarrow> string" where
  "renderDashboardAvgConfidence allConf =
     (case avgConfidence allConf of Some v \<Rightarrow> showInt v @ ''%'' | None \<Rightarrow> ''-'')"

section \<open>Calendar\<close>

definition isLeap :: "int \<Rightarrow> bool" where
  "isLeap y = (y mod 4 = 0 \<and> (y mod 100 \<noteq> 0 \<or> y mod 400 = 0))"

definition daysInMonth :: "int \<Rightarrow> nat \<Rightarrow> nat" where
  "daysInMonth y m =
     (if m = 2 then (if isLeap y then 29 else 28)
      else if m = 4 \<or> m = 6 \<or> m = 9 \<or> m = 11 then 30 else 31)"


text \<open>
  \<^verbatim>\<open>d.setDate(d.getDate() - 1)\<close>: day 0 of a month is the last day of the month before.
\<close>

definition prevDay :: "isodate \<Rightarrow> isodate" where
  "prevDay t =
     (case t of (y, m, d) \<Rightarrow>
        if 1 < d then (y, m, d - 1)
        else if 1 < m then (y, m - 1, daysInMonth y (m - 1))
        else (y - 1, 12, 31))"



section \<open>Analytics: trend and streak\<close>






lemma prevDay_less: "prevDay t < t"
  by (auto simp: prevDay_def split: prod.splits)

text \<open>
  The loop \<^verbatim>\<open>while (sessionDatesSet.has(tempDate)) { currentStreak++; ... }\<close>. It ends
  because every round moves to an earlier day and the sessions are finitely many.
\<close>

function streakLoop :: "isodate list \<Rightarrow> isodate \<Rightarrow> nat \<Rightarrow> nat" where
  "streakLoop dates tempDate currentStreak =
     (if tempDate \<in> set dates then streakLoop dates (prevDay tempDate) (currentStreak + 1)
      else currentStreak)"
  by pat_completeness auto
termination
proof (relation "measure (\<lambda>(dates, tempDate, n). card {d \<in> set dates. d \<le> tempDate})")
  show "wf (measure (\<lambda>(dates, tempDate, n). card {d \<in> set dates. d \<le> tempDate}))"
    by simp
next
  fix dates :: "isodate list" and tempDate :: isodate and currentStreak :: nat
  assume mem: "tempDate \<in> set dates"
  have "{d \<in> set dates. d \<le> prevDay tempDate} \<subset> {d \<in> set dates. d \<le> tempDate}"
    using mem prevDay_less [of tempDate] by (auto simp: less_le_not_le intro: order_trans)
  then have "card {d \<in> set dates. d \<le> prevDay tempDate} < card {d \<in> set dates. d \<le> tempDate}"
    by (intro psubset_card_mono) auto
  then show "((dates, prevDay tempDate, currentStreak + 1), (dates, tempDate, currentStreak))
      \<in> measure (\<lambda>(dates, tempDate, n). card {d \<in> set dates. d \<le> tempDate})"
    by simp
qed

definition currentStreak :: "StudySession list \<Rightarrow> isodate \<Rightarrow> nat" where
  "currentStreak sessions today =
     (let yesterday = prevDay today;
          sessionDates = map s_date sessions
      in if today \<in> set sessionDates then streakLoop sessionDates today 0
         else if yesterday \<in> set sessionDates then streakLoop sessionDates yesterday 0
         else 0)"

section \<open>Sample data\<close>

definition goalA :: DailyGoal where
  "goalA = \<lparr>g_id = ''g3'', g_userId = ''u'', g_date = (2026, 2, 16), g_title = ''Nationalism'',
     g_subject = ''Social Science'', g_targetHours = 1, g_completed = False, g_priority = High,
     g_createdAt = 0, g_completedAt = Null\<rparr>"

definition goalJan :: DailyGoal where
  "goalJan = goalA\<lparr>g_id := ''g0'', g_date := (2026, 1, 1)\<rparr>"

definition sessionA :: StudySession where
  "sessionA = \<lparr>s_id = ''s1'', s_userId = ''u'', s_subject = ''Science'', s_topic = ''Ohm Law'',
     s_startTime = 0, s_endTime = 1800000, s_durationMinutes = 30, s_date = (2026, 2, 17)\<rparr>"

definition sessionB :: StudySession where
  "sessionB = sessionA\<lparr>s_id := ''s2'', s_startTime := 3600000, s_endTime := 6300000,
     s_durationMinutes := 45\<rparr>"

definition goalOhm :: DailyGoal where
  "goalOhm = \<lparr>g_id = ''g1'', g_userId = ''u'', g_date = (2026, 2, 17), g_title = ''Ohm Law'',
     g_subject = ''Science'', g_targetHours = 13 / 10, g_completed = False, g_priority = High,
     g_createdAt = 0, g_completedAt = Absent\<rparr>"

definition store201 :: "StudySession list" where
  "store201 = map (\<lambda>i. sessionA\<lparr>s_id := digitsOf i, s_endTime := int i\<rparr>) [0..<201]"

definition goalLow :: DailyGoal where
  "goalLow = goalA\<lparr>g_id := ''g4'', g_priority := Low\<rparr>"

definition goalDone :: DailyGoal where
  "goalDone = goalA\<lparr>g_id := ''g2'', g_priority := Medium, g_completed := True,
     g_completedAt := Day (2026, 2, 17)\<rparr>"


section \<open>Goal visibility\<close>

text \<open>
  C1. A goal is returned by \<open>getGoals\<close> exactly when it is stored and one of the three
  conditions holds: dated today; dated before today and not completed; dated before today,
  completed, and completed today. The three conditions exclude one another.
\<close>

theorem getGoals_visibility:
  "(g \<in> set (getGoals all today) \<longleftrightarrow>
      g \<in> set all \<and>
      (g_date g = today
       \<or> (g_date g < today \<and> g_completed g = False)
       \<or> (g_date g < today \<and> g_completed g = True \<and> g_completedAt g = Day today)))
   \<and> \<not> (isToday today g \<and> isPastIncomplete today g)
   \<and> \<not> (isToday today g \<and> isPastCompletedToday today g)
   \<and> \<not> (isPastIncomplete today g \<and> isPastCompletedToday today g)"
  by (auto simp: getGoals_def shouldIncludeGoal_def isToday_def isPastIncomplete_def
      isPastCompletedToday_def)

theorem getGoals_visibility_witness:
  "getGoals
     [goalJan, goalJan\<lparr>g_completed := True, g_completedAt := Day (2026, 1, 2)\<rparr>, goalDone, goalOhm]
     (2026, 2, 17)
   = [goalJan, goalDone, goalOhm]
   \<and> getGoals [goalDone] (2026, 2, 18) = []"
  using getGoals_visibility [of goalJan
      "[goalJan, goalJan\<lparr>g_completed := True, g_completedAt := Day (2026, 1, 2)\<rparr>, goalDone, goalOhm]"
      "(2026, 2, 17)"]
  by (simp add: getGoals_def shouldIncludeGoal_def isToday_def isPastIncomplete_def
      isPastCompletedToday_def goalJan_def goalDone_def goalOhm_def goalA_def)

section \<open>Toggling completion\<close>

lemma findIndex_Some:
  "findIndex p xs = Some i \<Longrightarrow> i < length xs \<and> p (xs ! i) \<and> (\<forall>j<i. \<not> p (xs ! j))"
proof (induction xs arbitrary: i)
  case Nil
  then show ?case by simp
next
  case (Cons x xs)
  show ?case
  proof (cases "p x")
    case True
    with Cons.prems show ?thesis by simp
  next
    case False
    with Cons.prems obtain k where k: "findIndex p xs = Some k" "i = Suc k"
      by auto
    from Cons.IH [OF k(1)] False k(2) show ?thesis
      by (auto simp: nth_Cons split: nat.splits)
  qed
qed

lemma findIndex_update_same:
  assumes "findIndex (\<lambda>g. g_id g = goalId) all = Some idx"
  shows "findIndex (\<lambda>g. g_id g = goalId) (all[idx := applyUpdates u (all ! idx)]) = Some idx"
  using assms
proof (induction all arbitrary: idx)
  case Nil
  then show ?case by simp
next
  case (Cons x xs)
  show ?case
  proof (cases "g_id x = goalId")
    case True
    with Cons.prems show ?thesis by (simp add: applyUpdates_def)
  next
    case False
    with Cons.prems obtain k where k: "findIndex (\<lambda>g. g_id g = goalId) xs = Some k" "idx = Suc k"
      by auto
    from Cons.IH [OF k(1)] False k(2) show ?thesis by simp
  qed
qed

lemma toggleGoal_found:
  "findIndex (\<lambda>g. g_id g = goalId) all = Some idx \<Longrightarrow>
   toggleGoal all goalId cs today = all[idx := applyUpdates (toggleUpdates cs today) (all ! idx)]"
  by (simp add: toggleGoal_def)








text \<open>
  A goal that has never been toggled has no \<open>completedAt\<close> field at all. Two toggles
  leave such a goal unchanged except that the field is now present with the value null.
\<close>

lemma toggleGoal_twice_absent:
  assumes found: "findIndex (\<lambda>g. g_id g = goalId) all = Some idx"
    and fresh: "g_completed (all ! idx) = False" "g_completedAt (all ! idx) = Absent"
  shows "toggleGoal (toggleGoal all goalId False today) goalId True today
           = all[idx := (all ! idx)\<lparr>g_completedAt := Null\<rparr>]"
proof -
  have i: "idx < length all" using findIndex_Some [OF found] by simp
  have f1: "findIndex (\<lambda>g. g_id g = goalId) (toggleGoal all goalId False today) = Some idx"
    unfolding toggleGoal_found [OF found] by (rule findIndex_update_same [OF found])
  have "applyUpdates (toggleUpdates True today) (applyUpdates (toggleUpdates False today) (all ! idx))
      = (all ! idx)\<lparr>g_completedAt := Null\<rparr>"
    using fresh by (simp add: applyUpdates_def toggleUpdates_def)
  then show ?thesis
    using i unfolding toggleGoal_found [OF f1] by (simp add: toggleGoal_found [OF found])
qed

section \<open>Sorting\<close>

lemma mset_insertBy: "mset (insertBy c x ys) = add_mset x (mset ys)"
  by (induction ys) simp_all

lemma mset_sortBy: "mset (sortBy c xs) = mset xs"
  unfolding sortBy_def by (induction xs) (simp_all add: mset_insertBy)

lemma set_insertBy: "set (insertBy c x ys) = insert x (set ys)"
  using mset_insertBy [of c x ys, THEN arg_cong, of set_mset] by simp

lemma length_sortBy: "length (sortBy c xs) = length xs"
  using mset_sortBy [of c xs, THEN arg_cong, of size] by simp


lemma sorted_insertBy:
  assumes tot: "\<And>a b. c a b \<le> 0 \<or> c b a \<le> 0"
    and tr: "\<And>a b d. c a b \<le> 0 \<Longrightarrow> c b d \<le> 0 \<Longrightarrow> c a d \<le> 0"
    and srt: "sorted_wrt (\<lambda>a b. c a b \<le> 0) ys"
  shows "sorted_wrt (\<lambda>a b. c a b \<le> 0) (insertBy c x ys)"
  using srt
proof (induction ys)
  case Nil
  then show ?case by simp
next
  case (Cons y ys)
  show ?case
  proof (cases "c x y \<le> 0")
    case True
    have "\<forall>z\<in>set ys. c x z \<le> 0"
      using Cons.prems True tr by auto
    with True Cons.prems show ?thesis by simp
  next
    case False
    then have "c y x \<le> 0" using tot [of x y] by simp
    with False Cons show ?thesis by (simp add: set_insertBy)
  qed
qed

lemma sorted_sortBy:
  assumes tot: "\<And>a b. c a b \<le> 0 \<or> c b a \<le> 0"
    and tr: "\<And>a b d. c a b \<le> 0 \<Longrightarrow> c b d \<le> 0 \<Longrightarrow> c a d \<le> 0"
  shows "sorted_wrt (\<lambda>a b. c a b \<le> 0) (sortBy c xs)"
proof (induction xs)
  case Nil
  show ?case by (simp add: sortBy_def)
next
  case (Cons x xs)
  have "sortBy c (x # xs) = insertBy c x (sortBy c xs)"
    by (simp add: sortBy_def)
  with sorted_insertBy [of c "sortBy c xs" x] tot tr Cons show ?case
    by simp
qed

lemma goalCompare_le:
  "goalCompare a b \<le> 0 \<longleftrightarrow>
     (if g_completed a = g_completed b then pMap (g_priority b) \<le> pMap (g_priority a)
      else \<not> g_completed a)"
  by (simp add: goalCompare_def)

lemma sorted_goalCompare: "sorted_wrt (\<lambda>a b. goalCompare a b \<le> 0) (sortBy goalCompare xs)"
proof (rule sorted_sortBy)
  show "goalCompare a b \<le> 0 \<or> goalCompare b a \<le> 0" for a b
    unfolding goalCompare_le by auto
  show "goalCompare a b \<le> 0 \<Longrightarrow> goalCompare b d \<le> 0 \<Longrightarrow> goalCompare a d \<le> 0" for a b d
    unfolding goalCompare_le by (auto split: if_splits)
qed

lemma withProgress_fields:
  "g_id (withProgress todays g) = g_id g"
  "g_completed (withProgress todays g) = g_completed g"
  "g_priority (withProgress todays g) = g_priority g"
  "g_subject (withProgress todays g) = g_subject g"
  "g_title (withProgress todays g) = g_title g"
  "g_targetHours (withProgress todays g) = g_targetHours g"
  "DailyGoal.truncate (withProgress todays g) = g"
  "actualHours (withProgress todays g) = toFixed1 (goalSpecificMinutes todays g / 60)"
  by (simp_all add: withProgress_def DailyGoal.defs GoalWithProgress.defs)

text \<open>
  C9. In the list the dashboard shows, no completed goal stands before an incomplete one,
  and of two goals in the same completion state the earlier one has the higher or the
  same priority (High, then Medium, then Low). The list holds the fetched goals, each
  with its progress, and nothing else.
\<close>

theorem dashboardGoals_sorted:
  assumes "i < j" and "j < length (dashboardGoals fetchedGoals allSessions today)"
  shows "(let shown = dashboardGoals fetchedGoals allSessions today; a = shown ! i; b = shown ! j
          in \<not> (g_completed a \<and> \<not> g_completed b)
           \<and> (g_completed a = g_completed b \<longrightarrow> pMap (g_priority a) \<ge> pMap (g_priority b)))
       \<and> mset (dashboardGoals fetchedGoals allSessions today)
         = mset (map (withProgress (todaysSessions allSessions today)) fetchedGoals)"
proof -
  let ?shown = "dashboardGoals fetchedGoals allSessions today"
  have "sorted_wrt (\<lambda>a b. goalCompare a b \<le> 0) ?shown"
    unfolding dashboardGoals_def by (rule sorted_goalCompare)
  then have "goalCompare (?shown ! i) (?shown ! j) \<le> 0"
    using assms by (simp add: sorted_wrt_iff_nth_less)
  then have ord: "\<not> (g_completed (?shown ! i) \<and> \<not> g_completed (?shown ! j))
      \<and> (g_completed (?shown ! i) = g_completed (?shown ! j)
         \<longrightarrow> pMap (g_priority (?shown ! i)) \<ge> pMap (g_priority (?shown ! j)))"
    unfolding goalCompare_le by (auto split: if_splits)
  have "mset ?shown = mset (map (withProgress (todaysSessions allSessions today)) fetchedGoals)"
    unfolding dashboardGoals_def by (rule mset_sortBy)
  then show ?thesis using ord by (simp add: Let_def)
qed

theorem dashboardGoals_sorted_witness:
  "(0::nat) < 2 \<and> 2 < length (dashboardGoals [goalDone, goalLow, goalA] [] (2026, 2, 17))
   \<and> map g_id (dashboardGoals [goalDone, goalLow, goalA] [] (2026, 2, 17)) = [''g3'', ''g4'', ''g2'']
   \<and> map g_completed (dashboardGoals [goalDone, goalLow, goalA] [] (2026, 2, 17)) = [False, False, True]
   \<and> map g_priority (dashboardGoals [goalDone, goalLow, goalA] [] (2026, 2, 17)) = [High, Low, Medium]"
proof -
  have l: "2 < length (dashboardGoals [goalDone, goalLow, goalA] [] (2026, 2, 17))"
    by (simp add: dashboardGoals_def length_sortBy)
  show ?thesis
    using dashboardGoals_sorted [of 0 2 "[goalDone, goalLow, goalA]" "[]" "(2026, 2, 17)"] l
    by (simp add: dashboardGoals_def sortBy_def goalCompare_def pMap_def withProgress_fields
        goalA_def goalLow_def goalDone_def)
qed

section \<open>Progress per goal\<close>









section \<open>Sessions and confidence\<close>

lemma byEndTimeDesc_le: "byEndTimeDesc a b \<le> 0 \<longleftrightarrow> s_endTime b \<le> s_endTime a"
  by (simp add: byEndTimeDesc_def)

lemma sorted_byEndTimeDesc:
  "sorted_wrt (\<lambda>a b. s_endTime b \<le> s_endTime a) (sortBy byEndTimeDesc xs)"
proof -
  have "sorted_wrt (\<lambda>a b. byEndTimeDesc a b \<le> 0) (sortBy byEndTimeDesc xs)"
    by (rule sorted_sortBy) (auto simp: byEndTimeDesc_le)
  then show ?thesis by (simp add: byEndTimeDesc_le)
qed

lemma sorted_wrt_take_prefix: "sorted_wrt P xs \<Longrightarrow> sorted_wrt P (take n xs)"
  by (metis append_take_drop_id sorted_wrt_append)

lemma mset_take_prefix: "mset (take n xs) \<subseteq># mset xs"
  by (metis append_take_drop_id mset_append mset_subset_eq_add_left)

text \<open>
  C8 as stated fails for a user with 201 sessions: the mock branch returns all 201, more
  than the page of 200, and the document-store branch returns 200, not all of them.
\<close>

theorem getSessions_counterexample:
  "\<not> length (getSessions False store201 None) \<le> 200
   \<and> mset (getSessions True store201 None) \<noteq> mset store201"
proof -
  have len: "length store201 = 201"
    by (simp add: store201_def)
  have "length (getSessions False store201 None) = 201"
    by (simp add: getSessions_def length_sortBy len)
  moreover have "length (getSessions True store201 None) = 200"
    by (simp add: getSessions_def length_sortBy len)
  ultimately show ?thesis
    using len mset_eq_length [of "getSessions True store201 None" store201] by linarith
qed

text \<open>
  C8, amended. With a date, \<open>getSessions\<close> returns exactly the stored sessions of that
  date, in both branches. Without a date the mock branch returns all sessions, newest end
  time first, with no cap; the document-store branch returns the first 200 of that list,
  which is all of them when there are at most 200.
\<close>

theorem getSessions_results:
  "getSessions isFirebaseConfigured all (Some d) = filter (\<lambda>s. s_date s = d) all
   \<and> mset (getSessions False all None) = mset all
   \<and> sorted_wrt (\<lambda>a b. s_endTime b \<le> s_endTime a) (getSessions False all None)
   \<and> getSessions True all None = take 200 (getSessions False all None)
   \<and> length (getSessions True all None) = min 200 (length all)
   \<and> sorted_wrt (\<lambda>a b. s_endTime b \<le> s_endTime a) (getSessions True all None)
   \<and> mset (getSessions True all None) \<subseteq># mset all
   \<and> (length all \<le> 200 \<longrightarrow> mset (getSessions True all None) = mset all)"
proof -
  have a: "getSessions isFirebaseConfigured all (Some d) = filter (\<lambda>s. s_date s = d) all"
    by (simp add: getSessions_def)
  have b: "getSessions False all None = sortBy byEndTimeDesc all"
    by (simp add: getSessions_def)
  have c: "getSessions True all None = take 200 (sortBy byEndTimeDesc all)"
    by (simp add: getSessions_def)
  have d: "mset (take 200 (sortBy byEndTimeDesc all)) \<subseteq># mset all"
    using mset_take_prefix [of 200 "sortBy byEndTimeDesc all"] by (simp add: mset_sortBy)
  show ?thesis
    unfolding a b c
    by (simp add: mset_sortBy length_sortBy sorted_byEndTimeDesc sorted_wrt_take_prefix d)
qed

theorem getSessions_results_witness:
  "length [sessionA, sessionB] \<le> 200
   \<and> getSessions True [sessionA, sessionB] None = [sessionB, sessionA]
   \<and> getSessions False [sessionA, sessionB] None = [sessionB, sessionA]
   \<and> getSessions True [sessionA, sessionB\<lparr>s_date := (2026, 2, 16)\<rparr>] (Some (2026, 2, 16))
       = [sessionB\<lparr>s_date := (2026, 2, 16)\<rparr>]"
  using getSessions_results [of True "[sessionA, sessionB]" "(2026, 2, 16)"]
  by (simp add: getSessions_def sortBy_def byEndTimeDesc_def sessionA_def sessionB_def)

lemma Math_round_nearest:
  "\<bar>of_int (Math_round x) - x\<bar> \<le> 1 / 2"
  unfolding Math_round_def by linarith

lemma foldl_plus_sum_list: "foldl (+) a xs = a + sum_list xs" for a :: int
  by (induction xs arbitrary: a) simp_all

lemma avgConf_nonempty:
  "allConf \<noteq> [] \<Longrightarrow>
     avgConf allConf = Math_round (of_int (sum_list allConf) / of_nat (length allConf))
     \<and> avgConfidence allConf = Some (avgConf allConf)"
  by (simp add: avgConf_def avgConfidence_def foldl_plus_sum_list)

text \<open>
  C5. With no confidence entries the analytics view computes the average 0 and shows
  \<^verbatim>\<open>0%\<close>; the dashboard keeps \<^verbatim>\<open>null\<close> and shows a dash.
\<close>

theorem analytics_avgConf_empty:
  "avgConf [] = 0
   \<and> renderAnalyticsAvgConfidence [] = ''0%''
   \<and> avgConfidence [] = None
   \<and> renderDashboardAvgConfidence [] = ''-''"
  by (simp add: avgConf_def renderAnalyticsAvgConfidence_def showInt_def avgConfidence_def
      renderDashboardAvgConfidence_def)

section \<open>Streak\<close>

declare streakLoop.simps [simp del]












section \<open>Trend series\<close>

























end
